theory Spec2Isabelle
  imports Complex_Main
begin

section \<open>Errors\<close>

text \<open>
  The failures the modelled code can produce: a missing dictionary key (Python's
  subscript on a dict), and the two validation failures of the field validators that
  the schemas use (an out-of-range number, an unparseable duration).
\<close>

datatype error = KeyError | RangeError | FormatError

section \<open>Capability table (\<open>__init__.py\<close>)\<close>

text \<open>
  Each value of \<open>MODEL_CAPABILITIES\<close> is a dictionary with the same seven boolean
  entries, here a record. The table itself keeps the order of the source as an
  association list; lookups go through \<open>map_of\<close>.
\<close>

record capabilities =
  pm :: bool
  pm4 :: bool
  rht :: bool
  voc :: bool
  nox :: bool
  co2 :: bool
  hcho :: bool

definition MODEL_CAPABILITIES :: "(string \<times> capabilities) list" where
  "MODEL_CAPABILITIES =
    [(''SEN62'',  \<lparr>pm = True, pm4 = True,  rht = True, voc = False, nox = False, co2 = False, hcho = False\<rparr>),
     (''SEN63C'', \<lparr>pm = True, pm4 = False, rht = True, voc = False, nox = False, co2 = True,  hcho = False\<rparr>),
     (''SEN65'',  \<lparr>pm = True, pm4 = False, rht = True, voc = True,  nox = True,  co2 = False, hcho = False\<rparr>),
     (''SEN66'',  \<lparr>pm = True, pm4 = True,  rht = True, voc = True,  nox = True,  co2 = True,  hcho = False\<rparr>),
     (''SEN68'',  \<lparr>pm = True, pm4 = False, rht = True, voc = True,  nox = True,  co2 = False, hcho = True\<rparr>),
     (''SEN69C'', \<lparr>pm = True, pm4 = True,  rht = True, voc = True,  nox = True,  co2 = True,  hcho = True\<rparr>)]"

definition MODELS :: "string list" where
  "MODELS = map fst MODEL_CAPABILITIES"

text \<open>
  \<open>MODEL_CAPABILITIES.get(model, MODEL_CAPABILITIES["SEN66"])\<close>: Python evaluates the
  default argument first, and that subscript raises \<open>KeyError\<close> when the key is
  missing; then \<open>get\<close> returns the entry of \<open>model\<close> or the default.
\<close>

definition get_model_capabilities :: "string \<Rightarrow> error + capabilities" where
  "get_model_capabilities model =
    (case map_of MODEL_CAPABILITIES ''SEN66'' of
       None \<Rightarrow> Inl KeyError
     | Some dflt \<Rightarrow>
         (case map_of MODEL_CAPABILITIES model of
            None \<Rightarrow> Inr dflt
          | Some r \<Rightarrow> Inr r))"

text \<open>
  One capability record dominates another when it supports every measurement family
  the other supports (on booleans, \<open>False \<le> True\<close>); the domination is strict when
  the two records differ as well.
\<close>

definition dominates :: "capabilities \<Rightarrow> capabilities \<Rightarrow> bool" where
  "dominates a b \<longleftrightarrow>
     pm b \<le> pm a \<and> pm4 b \<le> pm4 a \<and> rht b \<le> rht a \<and> voc b \<le> voc a \<and>
     nox b \<le> nox a \<and> co2 b \<le> co2 a \<and> hcho b \<le> hcho a"

definition most_capable :: "capabilities \<Rightarrow> bool" where
  "most_capable r \<longleftrightarrow> list_all (\<lambda>kv. dominates r (snd kv)) MODEL_CAPABILITIES"

text \<open>The same comparison with the formaldehyde flag left out.\<close>

definition dominates_except_hcho :: "capabilities \<Rightarrow> capabilities \<Rightarrow> bool" where
  "dominates_except_hcho a b \<longleftrightarrow>
     pm b \<le> pm a \<and> pm4 b \<le> pm4 a \<and> rht b \<le> rht a \<and> voc b \<le> voc a \<and>
     nox b \<le> nox a \<and> co2 b \<le> co2 a"

definition SEN66_record :: capabilities where
  "SEN66_record = \<lparr>pm = True, pm4 = True, rht = True, voc = True, nox = True, co2 = True, hcho = False\<rparr>"

definition SEN69C_record :: capabilities where
  "SEN69C_record = \<lparr>pm = True, pm4 = True, rht = True, voc = True, nox = True, co2 = True, hcho = True\<rparr>"

section \<open>Default parameter tables (\<open>sensor.py\<close>)\<close>

text \<open>
  \<open>VOC_DEFAULTS\<close> and \<open>NOX_DEFAULTS\<close> are dictionaries with the same six integer
  entries; a validated \<open>algorithm_tuning\<close> block has the same six entries.
\<close>

record tuning =
  index_offset :: int
  learning_time_offset_hours :: int
  learning_time_gain_hours :: int
  gating_max_duration_minutes :: int
  std_initial :: int
  gain_factor :: int

definition VOC_DEFAULTS :: tuning where
  "VOC_DEFAULTS =
    \<lparr>index_offset = 100, learning_time_offset_hours = 12, learning_time_gain_hours = 12,
     gating_max_duration_minutes = 180, std_initial = 50, gain_factor = 230\<rparr>"

definition NOX_DEFAULTS :: tuning where
  "NOX_DEFAULTS =
    \<lparr>index_offset = 1, learning_time_offset_hours = 12, learning_time_gain_hours = 12,
     gating_max_duration_minutes = 720, std_initial = 50, gain_factor = 230\<rparr>"

datatype measurement_kind = VOC | NOX

fun defaults_for :: "measurement_kind \<Rightarrow> tuning" where
  "defaults_for VOC = VOC_DEFAULTS"
| "defaults_for NOX = NOX_DEFAULTS"

section \<open>Configurations and wiring instructions\<close>

text \<open>
  Identifiers name the objects of the generated program: the hub, every entity and
  the external pressure sensor.
\<close>

type_synonym ident = string

text \<open>
  The validated hub configuration (\<open>CONFIG_SCHEMA\<close> of \<open>__init__.py\<close>): its own
  identifier, the polling interval and the bus address that the two registration calls
  consume, and the two optional keys \<open>pressure_source\<close> and \<open>rht_acceleration\<close>.
\<close>

record rht_acceleration_conf =
  rht_k :: int
  rht_p :: int
  rht_t1 :: int
  rht_t2 :: int

record hub_config =
  hub_id :: ident
  update_interval :: int
  address :: int
  pressure_source :: "ident option"
  rht_acceleration :: "rht_acceleration_conf option"

text \<open>
  A validated entity configuration carries its generated identifier and its
  presentation data (here the name), which the entity constructors of the host
  consume. The entities of the sensor, number and switch platforms carry the extra keys
  their schemas add; a key that a schema leaves optional without a default, or that
  only some entries of a platform have, is an option.
\<close>

record entity_conf =
  conf_id :: ident
  conf_name :: string

record sensor_conf = entity_conf +
  algorithm_tuning :: "tuning option"

record number_conf = entity_conf +
  normalized_offset_slope :: "real option"
  time_constant :: "int option"

text \<open>
  The validated \<open>interval\<close> is a time period object of the host; the code reads its
  \<open>total_seconds\<close>, a whole number of seconds.
\<close>

datatype time_period = TimePeriodSeconds (total_seconds: int)

record switch_conf = entity_conf +
  interval :: "time_period option"

text \<open>
  The configuration of one platform: the identifier of the hub (\<open>sen6x_id\<close>), and the
  declared entities by key, in the order of the user's declaration. \<open>KEY in config\<close> is
  \<open>map_of (entries config) KEY \<noteq> None\<close> and \<open>config[KEY]\<close> the value found there.
\<close>

record 'c platform_config =
  sen6x_id :: ident
  entries :: "(string \<times> 'c) list"

text \<open>
  The arguments and the instructions that the code hands to the host's code generator.
  \<open>Add obj method args\<close> is \<open>cg.add(obj.method(args))\<close>; the \<open>New_\<close> instructions stand
  for what the host's entity constructors (\<open>new_sensor\<close> and the like) emit for the
  configuration they are given.
\<close>

datatype expr =
    Var ident
  | IntLit int
  | FloatLit real
  | StructInitializer string "(string \<times> int) list"

datatype instr =
    New_Pvariable ident
  | Register_component ident int
  | Register_i2c_device ident int
  | New_sensor sensor_conf
  | New_binary_sensor entity_conf
  | New_text_sensor entity_conf
  | New_button entity_conf
  | New_switch switch_conf
  | New_number number_conf real real real
  | Add ident string "expr list"

section \<open>Hub (\<open>__init__.py\<close>)\<close>

abbreviation (input) CONF_PRESSURE_SOURCE :: string where "CONF_PRESSURE_SOURCE \<equiv> ''pressure_source''"
abbreviation (input) CONF_RHT_ACCELERATION :: string where "CONF_RHT_ACCELERATION \<equiv> ''rht_acceleration''"
abbreviation (input) CONF_RHT_K :: string where "CONF_RHT_K \<equiv> ''k''"
abbreviation (input) CONF_RHT_P :: string where "CONF_RHT_P \<equiv> ''p''"
abbreviation (input) CONF_RHT_T1 :: string where "CONF_RHT_T1 \<equiv> ''t1''"
abbreviation (input) CONF_RHT_T2 :: string where "CONF_RHT_T2 \<equiv> ''t2''"

definition pressure_source_instr :: "ident \<Rightarrow> ident \<Rightarrow> instr" where
  "pressure_source_instr var pressure_sensor = Add var ''set_pressure_source'' [Var pressure_sensor]"

definition rht_acceleration_instr :: "ident \<Rightarrow> rht_acceleration_conf \<Rightarrow> instr" where
  "rht_acceleration_instr var rht_block =
     Add var ''set_rht_acceleration''
       [StructInitializer ''RhtAcceleration''
          [(CONF_RHT_K, rht_k rht_block), (CONF_RHT_P, rht_p rht_block),
           (CONF_RHT_T1, rht_t1 rht_block), (CONF_RHT_T2, rht_t2 rht_block)]]"

text \<open>
  \<open>to_code\<close> of the hub: construction, the two registrations, then the optional
  pressure source, then the optional RHT acceleration, in the order of the source. The
  list holds the hub's own instructions in the order in which it issues them;
  \<open>cg.get_variable\<close> waits for the pressure sensor to exist and emits nothing itself.
\<close>

definition hub_to_code :: "hub_config \<Rightarrow> instr list" where
  "hub_to_code config =
     (let var = hub_id config in
      [New_Pvariable var,
       Register_component var (update_interval config),
       Register_i2c_device var (address config)]
      @ (case pressure_source config of
           None \<Rightarrow> []
         | Some pressure_sensor \<Rightarrow> [pressure_source_instr var pressure_sensor])
      @ (case rht_acceleration config of
           None \<Rightarrow> []
         | Some rht_block \<Rightarrow> [rht_acceleration_instr var rht_block]))"

text \<open>
  \<open>precedes x y xs\<close>: some occurrence of \<open>x\<close> in \<open>xs\<close> comes strictly before some
  occurrence of \<open>y\<close>.
\<close>

fun precedes :: "'a \<Rightarrow> 'a \<Rightarrow> 'a list \<Rightarrow> bool" where
  "precedes x y [] = False"
| "precedes x y (z # zs) = (if z = x then y \<in> set zs else precedes x y zs)"

section \<open>Measurement sensors (\<open>sensor.py\<close>)\<close>

abbreviation (input) CONF_PM_1_0 :: string where "CONF_PM_1_0 \<equiv> ''pm_1_0''"
abbreviation (input) CONF_PM_2_5 :: string where "CONF_PM_2_5 \<equiv> ''pm_2_5''"
abbreviation (input) CONF_PM_4_0 :: string where "CONF_PM_4_0 \<equiv> ''pm_4_0''"
abbreviation (input) CONF_PM_10_0 :: string where "CONF_PM_10_0 \<equiv> ''pm_10_0''"
abbreviation (input) CONF_HUMIDITY :: string where "CONF_HUMIDITY \<equiv> ''humidity''"
abbreviation (input) CONF_TEMPERATURE :: string where "CONF_TEMPERATURE \<equiv> ''temperature''"
abbreviation (input) CONF_VOC_INDEX :: string where "CONF_VOC_INDEX \<equiv> ''voc_index''"
abbreviation (input) CONF_NOX_INDEX :: string where "CONF_NOX_INDEX \<equiv> ''nox_index''"
abbreviation (input) CONF_CO2 :: string where "CONF_CO2 \<equiv> ''co2''"
abbreviation (input) CONF_FORMALDEHYDE :: string where "CONF_FORMALDEHYDE \<equiv> ''formaldehyde''"
abbreviation (input) CONF_TVOC_WELL :: string where "CONF_TVOC_WELL \<equiv> ''tvoc_well''"
abbreviation (input) CONF_TVOC_RESET :: string where "CONF_TVOC_RESET \<equiv> ''tvoc_reset''"
abbreviation (input) CONF_TVOC_ETHANOL :: string where "CONF_TVOC_ETHANOL \<equiv> ''tvoc_ethanol''"
abbreviation (input) CONF_NC_0_5 :: string where "CONF_NC_0_5 \<equiv> ''nc_0_5''"
abbreviation (input) CONF_NC_1_0 :: string where "CONF_NC_1_0 \<equiv> ''nc_1_0''"
abbreviation (input) CONF_NC_2_5 :: string where "CONF_NC_2_5 \<equiv> ''nc_2_5''"
abbreviation (input) CONF_NC_4_0 :: string where "CONF_NC_4_0 \<equiv> ''nc_4_0''"
abbreviation (input) CONF_NC_10_0 :: string where "CONF_NC_10_0 \<equiv> ''nc_10_0''"
abbreviation (input) CONF_AMBIENT_PRESSURE :: string where "CONF_AMBIENT_PRESSURE \<equiv> ''ambient_pressure''"
abbreviation (input) CONF_SENSOR_ALTITUDE :: string where "CONF_SENSOR_ALTITUDE \<equiv> ''sensor_altitude''"

text \<open>
  The block that \<open>to_code\<close> repeats for a plain sensor:
  \<^verbatim>\<open>if KEY in config: sens = await sensor.new_sensor(config[KEY]); cg.add(hub.SETTER(sens))\<close>
\<close>

definition sensor_block :: "ident \<Rightarrow> (string \<times> sensor_conf) list \<Rightarrow> string \<Rightarrow> string \<Rightarrow> instr list" where
  "sensor_block hub config key setter =
     (case map_of config key of
        None \<Rightarrow> []
      | Some c \<Rightarrow> [New_sensor c, Add hub setter [Var (conf_id c)]])"

text \<open>The six arguments of a tuning call, in the order the source passes them.\<close>

definition tuning_args :: "tuning \<Rightarrow> expr list" where
  "tuning_args t =
     [IntLit (index_offset t),
      IntLit (learning_time_offset_hours t),
      IntLit (learning_time_gain_hours t),
      IntLit (gating_max_duration_minutes t),
      IntLit (std_initial t),
      IntLit (gain_factor t)]"

text \<open>
  The blocks of the two index sensors: the plain block, followed by the tuning call
  when the sensor's configuration has the key \<open>algorithm_tuning\<close>.
\<close>

definition voc_index_block :: "ident \<Rightarrow> (string \<times> sensor_conf) list \<Rightarrow> instr list" where
  "voc_index_block hub config =
     (case map_of config CONF_VOC_INDEX of
        None \<Rightarrow> []
      | Some voc_config \<Rightarrow>
          [New_sensor voc_config, Add hub ''set_voc_index_sensor'' [Var (conf_id voc_config)]]
          @ (case algorithm_tuning voc_config of
               None \<Rightarrow> []
             | Some t \<Rightarrow> [Add hub ''set_voc_algorithm_tuning'' (tuning_args t)]))"

definition nox_index_block :: "ident \<Rightarrow> (string \<times> sensor_conf) list \<Rightarrow> instr list" where
  "nox_index_block hub config =
     (case map_of config CONF_NOX_INDEX of
        None \<Rightarrow> []
      | Some nox_config \<Rightarrow>
          [New_sensor nox_config, Add hub ''set_nox_index_sensor'' [Var (conf_id nox_config)]]
          @ (case algorithm_tuning nox_config of
               None \<Rightarrow> []
             | Some t \<Rightarrow> [Add hub ''set_nox_algorithm_tuning'' (tuning_args t)]))"

text \<open>
  \<open>to_code\<close> of the sensor platform. \<open>cg.get_variable\<close> yields the hub variable named
  by \<open>sen6x_id\<close> and emits nothing.
\<close>

definition sensor_to_code :: "sensor_conf platform_config \<Rightarrow> instr list" where
  "sensor_to_code config =
     (let hub = sen6x_id config; cfg = entries config in
      sensor_block hub cfg CONF_PM_1_0 ''set_pm_1_0_sensor''
      @ sensor_block hub cfg CONF_PM_2_5 ''set_pm_2_5_sensor''
      @ sensor_block hub cfg CONF_PM_4_0 ''set_pm_4_0_sensor''
      @ sensor_block hub cfg CONF_PM_10_0 ''set_pm_10_0_sensor''
      @ sensor_block hub cfg CONF_HUMIDITY ''set_humidity_sensor''
      @ sensor_block hub cfg CONF_TEMPERATURE ''set_temperature_sensor''
      @ voc_index_block hub cfg
      @ nox_index_block hub cfg
      @ sensor_block hub cfg CONF_CO2 ''set_co2_sensor''
      @ sensor_block hub cfg CONF_FORMALDEHYDE ''set_formaldehyde_sensor''
      @ sensor_block hub cfg CONF_TVOC_WELL ''set_tvoc_well_sensor''
      @ sensor_block hub cfg CONF_TVOC_RESET ''set_tvoc_reset_sensor''
      @ sensor_block hub cfg CONF_TVOC_ETHANOL ''set_tvoc_ethanol_sensor''
      @ sensor_block hub cfg CONF_NC_0_5 ''set_nc_0_5_sensor''
      @ sensor_block hub cfg CONF_NC_1_0 ''set_nc_1_0_sensor''
      @ sensor_block hub cfg CONF_NC_2_5 ''set_nc_2_5_sensor''
      @ sensor_block hub cfg CONF_NC_4_0 ''set_nc_4_0_sensor''
      @ sensor_block hub cfg CONF_NC_10_0 ''set_nc_10_0_sensor''
      @ sensor_block hub cfg CONF_AMBIENT_PRESSURE ''set_ambient_pressure_sensor''
      @ sensor_block hub cfg CONF_SENSOR_ALTITUDE ''set_sensor_altitude_sensor'')"


subsection \<open>The \<open>algorithm_tuning\<close> sub-schema\<close>

text \<open>
  Modelled from the spec: the field validators that the schemas use belong to the host
  and are not part of the sources. An integer or float range fails with a range error outside \<open>[min, max]\<close>
  (bounds included); an optional key with a default validates the default when the key
  is missing. A schema validates all its keys and reports every failure together.
\<close>

definition int_range :: "int \<Rightarrow> int \<Rightarrow> int \<Rightarrow> error + int" where
  "int_range lo hi v = (if lo \<le> v \<and> v \<le> hi then Inr v else Inl RangeError)"

definition float_range :: "real \<Rightarrow> real \<Rightarrow> real \<Rightarrow> error + real" where
  "float_range lo hi v = (if lo \<le> v \<and> v \<le> hi then Inr v else Inl RangeError)"

definition Optional_default :: "'a \<Rightarrow> ('a \<Rightarrow> error + 'b) \<Rightarrow> 'a option \<Rightarrow> error + 'b" where
  "Optional_default dflt validator raw =
     validator (case raw of None \<Rightarrow> dflt | Some v \<Rightarrow> v)"

fun and_key :: "error list + ('a \<Rightarrow> 'b) \<Rightarrow> error + 'a \<Rightarrow> error list + 'b" where
  "and_key (Inr f) (Inr x) = Inr (f x)"
| "and_key (Inr f) (Inl e) = Inl [e]"
| "and_key (Inl es) (Inr x) = Inl es"
| "and_key (Inl es) (Inl e) = Inl (es @ [e])"

text \<open>What the user wrote in an \<open>algorithm_tuning\<close> block: any of the six keys.\<close>

record raw_tuning =
  raw_index_offset :: "int option"
  raw_learning_time_offset_hours :: "int option"
  raw_learning_time_gain_hours :: "int option"
  raw_gating_max_duration_minutes :: "int option"
  raw_std_initial :: "int option"
  raw_gain_factor :: "int option"

definition make_tuning :: "int \<Rightarrow> int \<Rightarrow> int \<Rightarrow> int \<Rightarrow> int \<Rightarrow> int \<Rightarrow> tuning" where
  "make_tuning a b c d e f =
     \<lparr>index_offset = a, learning_time_offset_hours = b, learning_time_gain_hours = c,
      gating_max_duration_minutes = d, std_initial = e, gain_factor = f\<rparr>"

definition ALGORITHM_TUNING_SCHEMA :: "tuning \<Rightarrow> raw_tuning \<Rightarrow> error list + tuning" where
  "ALGORITHM_TUNING_SCHEMA defaults raw =
     and_key (and_key (and_key (and_key (and_key (and_key (Inr make_tuning)
       (Optional_default (index_offset defaults) (int_range 1 250) (raw_index_offset raw)))
       (Optional_default (learning_time_offset_hours defaults) (int_range 1 1000)
          (raw_learning_time_offset_hours raw)))
       (Optional_default (learning_time_gain_hours defaults) (int_range 1 1000)
          (raw_learning_time_gain_hours raw)))
       (Optional_default (gating_max_duration_minutes defaults) (int_range 0 3000)
          (raw_gating_max_duration_minutes raw)))
       (Optional_default (std_initial defaults) (int_range 10 5000) (raw_std_initial raw)))
       (Optional_default (gain_factor defaults) (int_range 1 1000) (raw_gain_factor raw))"

text \<open>
  The schema of an index sensor extends the plain sensor schema by the optional key
  \<open>algorithm_tuning\<close>, which has no default: a configuration without the block
  validates to one without the key.
\<close>

record raw_sensor_conf = entity_conf +
  raw_algorithm_tuning :: "raw_tuning option"

definition index_sensor_schema :: "tuning \<Rightarrow> raw_sensor_conf \<Rightarrow> error list + sensor_conf" where
  "index_sensor_schema defaults raw =
     (case raw_algorithm_tuning raw of
        None \<Rightarrow>
          Inr \<lparr>conf_id = conf_id raw, conf_name = conf_name raw, algorithm_tuning = None\<rparr>
      | Some block \<Rightarrow>
          (case ALGORITHM_TUNING_SCHEMA defaults block of
             Inl es \<Rightarrow> Inl es
           | Inr t \<Rightarrow>
               Inr \<lparr>conf_id = conf_id raw, conf_name = conf_name raw, algorithm_tuning = Some t\<rparr>))"

text \<open>The configuration key and the tuning setter of each of the two index sensors.\<close>

fun index_key :: "measurement_kind \<Rightarrow> string" where
  "index_key VOC = CONF_VOC_INDEX"
| "index_key NOX = CONF_NOX_INDEX"

fun tuning_setter :: "measurement_kind \<Rightarrow> string" where
  "tuning_setter VOC = ''set_voc_algorithm_tuning''"
| "tuning_setter NOX = ''set_nox_algorithm_tuning''"

text \<open>The calls of one setter among a sequence of instructions.\<close>

fun is_call :: "string \<Rightarrow> instr \<Rightarrow> bool" where
  "is_call setter (Add obj method args) = (method = setter)"
| "is_call setter _ = False"

definition calls_of :: "string \<Rightarrow> instr list \<Rightarrow> instr list" where
  "calls_of setter is = filter (is_call setter) is"

section \<open>Binary sensors (\<open>binary_sensor.py\<close>)\<close>





section \<open>Buttons (\<open>button.py\<close>)\<close>





section \<open>Text sensors (\<open>text_sensor.py\<close>)\<close>





section \<open>Numbers (\<open>number.py\<close>)\<close>

abbreviation (input) CONF_ALTITUDE_COMPENSATION :: string where "CONF_ALTITUDE_COMPENSATION \<equiv> ''altitude_compensation''"
abbreviation (input) CONF_AMBIENT_PRESSURE_COMPENSATION :: string where "CONF_AMBIENT_PRESSURE_COMPENSATION \<equiv> ''ambient_pressure_compensation''"
abbreviation (input) CONF_TEMPERATURE_OFFSET :: string where "CONF_TEMPERATURE_OFFSET \<equiv> ''temperature_offset''"
abbreviation (input) CONF_OUTDOOR_CO2_REFERENCE :: string where "CONF_OUTDOOR_CO2_REFERENCE \<equiv> ''outdoor_co2_reference''"
abbreviation (input) CONF_NORMALIZED_OFFSET_SLOPE :: string where "CONF_NORMALIZED_OFFSET_SLOPE \<equiv> ''normalized_offset_slope''"
abbreviation (input) CONF_TIME_CONSTANT :: string where "CONF_TIME_CONSTANT \<equiv> ''time_constant''"

text \<open>
  The block of a plain number:
  \<^verbatim>\<open>if KEY in config: n = await number.new_number(config[KEY], min_value=.., max_value=.., step=..); cg.add(hub.SETTER(n))\<close>
  The bounds and the step are numbers of the source text; they are kept as reals
  (the step \<open>0.1\<close> is the decimal the source writes).
\<close>

definition number_block ::
  "ident \<Rightarrow> (string \<times> number_conf) list \<Rightarrow> string \<Rightarrow> real \<Rightarrow> real \<Rightarrow> real \<Rightarrow> string \<Rightarrow> instr list" where
  "number_block hub config key min_value max_value step setter =
     (case map_of config key of
        None \<Rightarrow> []
      | Some c \<Rightarrow> [New_number c min_value max_value step, Add hub setter [Var (conf_id c)]])"

text \<open>
  The block of the temperature offset reads the two compensation parameters with
  \<open>dict.get\<close> and its defaults, and emits the compensation call when one of them is
  not zero. The slope is a float that is only compared with zero and passed on, so it
  is modelled as a real.
\<close>

definition temperature_offset_block :: "ident \<Rightarrow> (string \<times> number_conf) list \<Rightarrow> instr list" where
  "temperature_offset_block hub config =
     (case map_of config CONF_TEMPERATURE_OFFSET of
        None \<Rightarrow> []
      | Some temp_offset_config \<Rightarrow>
          (let slope = (case normalized_offset_slope temp_offset_config of
                          None \<Rightarrow> 0 | Some v \<Rightarrow> v);
               time_const = (case time_constant temp_offset_config of
                          None \<Rightarrow> 0 | Some v \<Rightarrow> v)
           in [New_number temp_offset_config (- 10) 10 (1 / 10),
               Add hub ''set_temperature_offset_number'' [Var (conf_id temp_offset_config)]]
              @ (if slope \<noteq> 0 \<or> time_const \<noteq> 0
                 then [Add hub ''set_temperature_compensation''
                         [FloatLit 0, FloatLit slope, IntLit time_const]]
                 else [])))"

definition number_to_code :: "number_conf platform_config \<Rightarrow> instr list" where
  "number_to_code config =
     (let hub = sen6x_id config; cfg = entries config in
      number_block hub cfg CONF_ALTITUDE_COMPENSATION 0 3000 1 ''set_altitude_compensation_number''
      @ number_block hub cfg CONF_AMBIENT_PRESSURE_COMPENSATION 0 1100 1
          ''set_ambient_pressure_compensation_number''
      @ temperature_offset_block hub cfg
      @ number_block hub cfg CONF_OUTDOOR_CO2_REFERENCE 350 500 1 ''set_outdoor_co2_reference_number'')"


text \<open>
  The schema of the temperature offset: both compensation keys are optional with the
  defaults \<open>0.0\<close> and \<open>0\<close>, so a validated configuration has both.
\<close>

record raw_number_conf = entity_conf +
  raw_normalized_offset_slope :: "real option"
  raw_time_constant :: "int option"

definition make_temperature_offset :: "raw_number_conf \<Rightarrow> real \<Rightarrow> int \<Rightarrow> number_conf" where
  "make_temperature_offset raw slope time_const =
     \<lparr>conf_id = conf_id raw, conf_name = conf_name raw,
      normalized_offset_slope = Some slope, time_constant = Some time_const\<rparr>"

definition temperature_offset_schema :: "raw_number_conf \<Rightarrow> error list + number_conf" where
  "temperature_offset_schema raw =
     and_key (and_key (Inr (make_temperature_offset raw))
       (Optional_default 0 (float_range (- 1) 1) (raw_normalized_offset_slope raw)))
       (Optional_default 0 (int_range 0 65535) (raw_time_constant raw))"

text \<open>The constructions of number entities among a sequence of instructions.\<close>

fun is_new_number :: "instr \<Rightarrow> bool" where
  "is_new_number (New_number c min_value max_value step) = True"
| "is_new_number _ = False"

section \<open>Switches (\<open>switch.py\<close>)\<close>

abbreviation (input) CONF_CO2_AUTOMATIC_SELF_CALIBRATION :: string where "CONF_CO2_AUTOMATIC_SELF_CALIBRATION \<equiv> ''co2_automatic_self_calibration''"
abbreviation (input) CONF_AUTO_FAN_CLEANING :: string where "CONF_AUTO_FAN_CLEANING \<equiv> ''auto_fan_cleaning''"
abbreviation (input) CONF_INTERVAL :: string where "CONF_INTERVAL \<equiv> ''interval''"

definition DEFAULT_CLEANING_INTERVAL :: int where
  "DEFAULT_CLEANING_INTERVAL = 604800"

definition co2_asc_block :: "ident \<Rightarrow> (string \<times> switch_conf) list \<Rightarrow> instr list" where
  "co2_asc_block hub config =
     (case map_of config CONF_CO2_AUTOMATIC_SELF_CALIBRATION of
        None \<Rightarrow> []
      | Some c \<Rightarrow> [New_switch c, Add hub ''set_co2_asc_switch'' [Var (conf_id c)]])"

text \<open>
  The block of the auto-cleaning switch subscripts its configuration at \<open>interval\<close>,
  which raises \<open>KeyError\<close> when the key is missing. The seconds are a whole number, so
  \<open>int(interval_seconds * 1000)\<close> is the product itself.
\<close>

definition auto_fan_cleaning_block :: "ident \<Rightarrow> (string \<times> switch_conf) list \<Rightarrow> error + instr list" where
  "auto_fan_cleaning_block hub config =
     (case map_of config CONF_AUTO_FAN_CLEANING of
        None \<Rightarrow> Inr []
      | Some auto_clean_config \<Rightarrow>
          (case interval auto_clean_config of
             None \<Rightarrow> Inl KeyError
           | Some period \<Rightarrow>
               (let interval_seconds = total_seconds period in
                Inr [New_switch auto_clean_config,
                     Add hub ''set_auto_cleaning_switch'' [Var (conf_id auto_clean_config)],
                     Add hub ''set_auto_cleaning_interval'' [IntLit (interval_seconds * 1000)]])))"

definition switch_to_code :: "switch_conf platform_config \<Rightarrow> error + instr list" where
  "switch_to_code config =
     (let hub = sen6x_id config; cfg = entries config in
      case auto_fan_cleaning_block hub cfg of
        Inl e \<Rightarrow> Inl e
      | Inr cleaning \<Rightarrow> Inr (co2_asc_block hub cfg @ cleaning))"


subsection \<open>The \<open>interval\<close> key\<close>

text \<open>
  Modelled from the spec: the duration validator \<open>positive_time_period_seconds\<close>
  belongs to the host and is not part of the sources. The specification says that it
  accepts a human-readable interval, converts it to a count of seconds and fails with
  a format error on unparseable input, and gives \<open>"7d"\<close> and \<open>"1h"\<close> as inputs. The
  model accepts a non-empty decimal count followed by one of the units \<open>s\<close>, \<open>min\<close>,
  \<open>h\<close>, \<open>d\<close>, and rejects everything else.
\<close>

definition is_digit :: "char \<Rightarrow> bool" where
  "is_digit c \<longleftrightarrow> c \<in> set ''0123456789''"

definition digit_value :: "char \<Rightarrow> int" where
  "digit_value c =
     (case map_of (zip ''0123456789'' [0, 1, 2, 3, 4, 5, 6, 7, 8, 9]) c of
        None \<Rightarrow> 0
      | Some d \<Rightarrow> d)"

definition decimal :: "string \<Rightarrow> int" where
  "decimal ds = foldl (\<lambda>n c. 10 * n + digit_value c) 0 ds"

definition UNIT_SECONDS :: "(string \<times> int) list" where
  "UNIT_SECONDS = [(''s'', 1), (''min'', 60), (''h'', 3600), (''d'', 86400)]"

definition positive_time_period_seconds :: "string \<Rightarrow> error + time_period" where
  "positive_time_period_seconds text =
     (let ds = takeWhile is_digit text; unit = dropWhile is_digit text in
      if ds = [] then Inl FormatError
      else (case map_of UNIT_SECONDS unit of
              None \<Rightarrow> Inl FormatError
            | Some u \<Rightarrow> Inr (TimePeriodSeconds (decimal ds * u))))"

text \<open>
  The schema of the auto-cleaning switch extends the plain switch schema by the
  optional key \<open>interval\<close> with the default \<open>"7d"\<close>.
\<close>

record raw_switch_conf = entity_conf +
  raw_interval :: "string option"

definition make_auto_fan_cleaning :: "raw_switch_conf \<Rightarrow> time_period \<Rightarrow> switch_conf" where
  "make_auto_fan_cleaning raw period =
     \<lparr>conf_id = conf_id raw, conf_name = conf_name raw, interval = Some period\<rparr>"

definition auto_fan_cleaning_schema :: "raw_switch_conf \<Rightarrow> error list + switch_conf" where
  "auto_fan_cleaning_schema raw =
     and_key (Inr (make_auto_fan_cleaning raw))
       (Optional_default ''7d'' positive_time_period_seconds (raw_interval raw))"

section \<open>The order of the emitted entities\<close>


















section \<open>Example configurations\<close>

text \<open>
  Concrete configurations at which the properties below are evaluated: a hub with both
  optional keys, sensors declared against the order of the keys, and raw
  configurations together with what they validate to.
\<close>

definition ex_hub :: hub_config where
  "ex_hub = \<lparr>hub_id = ''sen6x_hub'', update_interval = 10, address = 107,
      pressure_source = Some ''bme280_pressure'',
      rht_acceleration = Some \<lparr>rht_k = 20, rht_p = 20, rht_t1 = 100, rht_t2 = 300\<rparr>\<rparr>"


definition ex_raw_voc_tuned :: raw_sensor_conf where
  "ex_raw_voc_tuned =
     \<lparr>conf_id = ''voc_sensor'', conf_name = ''VOC Index'',
      raw_algorithm_tuning = Some
        \<lparr>raw_index_offset = Some 120, raw_learning_time_offset_hours = None,
         raw_learning_time_gain_hours = None, raw_gating_max_duration_minutes = None,
         raw_std_initial = None, raw_gain_factor = Some 200\<rparr>\<rparr>"

definition ex_voc_tuned :: sensor_conf where
  "ex_voc_tuned =
     \<lparr>conf_id = ''voc_sensor'', conf_name = ''VOC Index'',
      algorithm_tuning = Some
        \<lparr>index_offset = 120, learning_time_offset_hours = 12, learning_time_gain_hours = 12,
         gating_max_duration_minutes = 180, std_initial = 50, gain_factor = 200\<rparr>\<rparr>"

definition ex_raw_nox_plain :: raw_sensor_conf where
  "ex_raw_nox_plain =
     \<lparr>conf_id = ''nox_sensor'', conf_name = ''NOx Index'', raw_algorithm_tuning = None\<rparr>"

definition ex_nox_plain :: sensor_conf where
  "ex_nox_plain = \<lparr>conf_id = ''nox_sensor'', conf_name = ''NOx Index'', algorithm_tuning = None\<rparr>"

definition ex_index_sensors :: "sensor_conf platform_config" where
  "ex_index_sensors =
     \<lparr>sen6x_id = ''sen6x_hub'',
      entries = [(CONF_VOC_INDEX, ex_voc_tuned), (CONF_NOX_INDEX, ex_nox_plain)]\<rparr>"

definition ex_raw_offset_sloped :: raw_number_conf where
  "ex_raw_offset_sloped =
     \<lparr>conf_id = ''temp_offset'', conf_name = ''Temperature Offset'',
      raw_normalized_offset_slope = Some 0.05, raw_time_constant = None\<rparr>"

definition ex_offset_sloped :: number_conf where
  "ex_offset_sloped =
     \<lparr>conf_id = ''temp_offset'', conf_name = ''Temperature Offset'',
      normalized_offset_slope = Some 0.05, time_constant = Some 0\<rparr>"

definition ex_raw_offset_plain :: raw_number_conf where
  "ex_raw_offset_plain =
     \<lparr>conf_id = ''temp_offset'', conf_name = ''Temperature Offset'',
      raw_normalized_offset_slope = None, raw_time_constant = None\<rparr>"

definition ex_offset_plain :: number_conf where
  "ex_offset_plain =
     \<lparr>conf_id = ''temp_offset'', conf_name = ''Temperature Offset'',
      normalized_offset_slope = Some 0, time_constant = Some 0\<rparr>"

definition ex_numbers_sloped :: "number_conf platform_config" where
  "ex_numbers_sloped =
     \<lparr>sen6x_id = ''sen6x_hub'', entries = [(CONF_TEMPERATURE_OFFSET, ex_offset_sloped)]\<rparr>"

definition ex_numbers_plain :: "number_conf platform_config" where
  "ex_numbers_plain =
     \<lparr>sen6x_id = ''sen6x_hub'', entries = [(CONF_TEMPERATURE_OFFSET, ex_offset_plain)]\<rparr>"

definition ex_plain_number :: "ident \<Rightarrow> number_conf" where
  "ex_plain_number i =
     \<lparr>conf_id = i, conf_name = i, normalized_offset_slope = None, time_constant = None\<rparr>"

definition ex_numbers_all :: "number_conf platform_config" where
  "ex_numbers_all =
     \<lparr>sen6x_id = ''sen6x_hub'',
      entries =
        [(CONF_OUTDOOR_CO2_REFERENCE, ex_plain_number ''co2_reference''),
         (CONF_TEMPERATURE_OFFSET, ex_offset_sloped),
         (CONF_ALTITUDE_COMPENSATION, ex_plain_number ''altitude''),
         (CONF_AMBIENT_PRESSURE_COMPENSATION, ex_plain_number ''pressure'')]\<rparr>"

definition ex_raw_cleaning :: "string option \<Rightarrow> raw_switch_conf" where
  "ex_raw_cleaning text =
     \<lparr>conf_id = ''auto_cleaning'', conf_name = ''Auto Cleaning'', raw_interval = text\<rparr>"

definition ex_cleaning :: "int \<Rightarrow> switch_conf" where
  "ex_cleaning seconds =
     \<lparr>conf_id = ''auto_cleaning'', conf_name = ''Auto Cleaning'',
      interval = Some (TimePeriodSeconds seconds)\<rparr>"

definition ex_switches :: "int \<Rightarrow> switch_conf platform_config" where
  "ex_switches seconds =
     \<lparr>sen6x_id = ''sen6x_hub'', entries = [(CONF_AUTO_FAN_CLEANING, ex_cleaning seconds)]\<rparr>"

section \<open>Properties of the capability table\<close>

lemma map_of_SEN66: "map_of MODEL_CAPABILITIES ''SEN66'' = Some SEN66_record"
  by (simp add: MODEL_CAPABILITIES_def SEN66_record_def)

lemma get_model_capabilities_unknown:
  "model \<notin> set MODELS \<Longrightarrow> get_model_capabilities model = Inr SEN66_record"
proof -
  assume "model \<notin> set MODELS"
  then have "map_of MODEL_CAPABILITIES model = None"
    by (simp add: MODELS_def map_of_eq_None_iff)
  then show ?thesis
    by (simp add: get_model_capabilities_def map_of_SEN66)
qed

lemma get_model_capabilities_known:
  "map_of MODEL_CAPABILITIES model = Some r \<Longrightarrow> get_model_capabilities model = Inr r"
  by (simp add: get_model_capabilities_def map_of_SEN66)

lemma get_model_capabilities_total: "\<exists>r. get_model_capabilities model = Inr r"
  by (cases "map_of MODEL_CAPABILITIES model") (simp_all add: get_model_capabilities_def map_of_SEN66)

text \<open>
  Claim C1, as stated, fails: \<open>SEN60\<close> is not a key of the table, the lookup returns
  the record of SEN66 for it, and that record is not the most capable one, since it
  does not dominate the records that support formaldehyde.
\<close>

theorem fallback_not_most_capable:
  "''SEN60'' \<notin> set MODELS \<and> get_model_capabilities ''SEN60'' = Inr SEN66_record \<and>
   \<not> most_capable SEN66_record"
  by (simp add: MODELS_def MODEL_CAPABILITIES_def get_model_capabilities_def SEN66_record_def
      most_capable_def dominates_def)

text \<open>
  Claim C1, amended: for a model identifier that is not a key of the table the lookup
  returns the record of SEN66 and does not fail; for a key of the table it returns the
  record of that key. The record of SEN66 dominates every record of the table on the
  six flags other than the formaldehyde flag.
\<close>

theorem capability_lookup:
  "(model \<notin> set MODELS \<longrightarrow> get_model_capabilities model = Inr SEN66_record) \<and>
   (\<forall>r. map_of MODEL_CAPABILITIES model = Some r \<longrightarrow> get_model_capabilities model = Inr r) \<and>
   list_all (\<lambda>kv. dominates_except_hcho SEN66_record (snd kv)) MODEL_CAPABILITIES"
proof (intro conjI impI allI)
  show "list_all (\<lambda>kv. dominates_except_hcho SEN66_record (snd kv)) MODEL_CAPABILITIES"
    by (simp add: MODEL_CAPABILITIES_def SEN66_record_def dominates_except_hcho_def)
qed (simp_all add: get_model_capabilities_unknown get_model_capabilities_known)

theorem capability_lookup_witness:
  "''SEN60'' \<notin> set MODELS \<and> get_model_capabilities ''SEN60'' = Inr SEN66_record \<and>
   map_of MODEL_CAPABILITIES ''SEN62'' =
     Some \<lparr>pm = True, pm4 = True, rht = True, voc = False, nox = False, co2 = False, hcho = False\<rparr> \<and>
   get_model_capabilities ''SEN62'' =
     Inr \<lparr>pm = True, pm4 = True, rht = True, voc = False, nox = False, co2 = False, hcho = False\<rparr>"
proof -
  have u: "''SEN60'' \<notin> set MODELS"
    by (simp add: MODELS_def MODEL_CAPABILITIES_def)
  have k: "map_of MODEL_CAPABILITIES ''SEN62'' =
     Some \<lparr>pm = True, pm4 = True, rht = True, voc = False, nox = False, co2 = False, hcho = False\<rparr>"
    by (simp add: MODEL_CAPABILITIES_def)
  from capability_lookup [of "''SEN60''"] u
  have 1: "get_model_capabilities ''SEN60'' = Inr SEN66_record" by blast
  from capability_lookup [of "''SEN62''"] k
  have 2: "get_model_capabilities ''SEN62'' =
     Inr \<lparr>pm = True, pm4 = True, rht = True, voc = False, nox = False, co2 = False, hcho = False\<rparr>"
    by blast
  from u k 1 2 show ?thesis by blast
qed

text \<open>
  Claim C10: the lookup returns a record for every model string; for a string that is
  not a key of the table the record is that of SEN66, whose formaldehyde flag is
  false; the table also has the record of SEN69C with all seven flags true, which
  dominates the record of SEN66 and differs from it.
\<close>

theorem fallback_is_SEN66:
  "(\<exists>r. get_model_capabilities model = Inr r) \<and>
   (model \<notin> set MODELS \<longrightarrow> get_model_capabilities model = Inr SEN66_record) \<and>
   map_of MODEL_CAPABILITIES ''SEN66'' = Some SEN66_record \<and>
   \<not> hcho SEN66_record \<and>
   map_of MODEL_CAPABILITIES ''SEN69C'' = Some SEN69C_record \<and>
   pm SEN69C_record \<and> pm4 SEN69C_record \<and> rht SEN69C_record \<and> voc SEN69C_record \<and>
   nox SEN69C_record \<and> co2 SEN69C_record \<and> hcho SEN69C_record \<and>
   dominates SEN69C_record SEN66_record \<and> SEN69C_record \<noteq> SEN66_record"
proof (intro conjI impI)
  show "\<exists>r. get_model_capabilities model = Inr r" by (rule get_model_capabilities_total)
  show "map_of MODEL_CAPABILITIES ''SEN66'' = Some SEN66_record" by (rule map_of_SEN66)
  show "map_of MODEL_CAPABILITIES ''SEN69C'' = Some SEN69C_record"
    by (simp add: MODEL_CAPABILITIES_def SEN69C_record_def)
  show "dominates SEN69C_record SEN66_record"
    by (simp add: dominates_def SEN69C_record_def SEN66_record_def)
  show "SEN69C_record \<noteq> SEN66_record"
    by (simp add: SEN69C_record_def SEN66_record_def)
qed (simp_all add: get_model_capabilities_unknown SEN69C_record_def SEN66_record_def)

theorem fallback_is_SEN66_witness:
  "''SEN6X'' \<notin> set MODELS \<and> get_model_capabilities ''SEN6X'' = Inr SEN66_record"
proof -
  have u: "''SEN6X'' \<notin> set MODELS"
    by (simp add: MODELS_def MODEL_CAPABILITIES_def)
  with fallback_is_SEN66 [of "''SEN6X''"] show ?thesis by blast
qed

section \<open>Properties of the default parameter tables\<close>

text \<open>
  Claim C4: the tuning defaults of VOC and NOx agree on the two learning times, on
  \<open>std_initial\<close> and on \<open>gain_factor\<close>, and differ on \<open>index_offset\<close> (100 and 1) and on
  \<open>gating_max_duration_minutes\<close> (180 and 720).
\<close>

theorem defaults_for_agree:
  "learning_time_offset_hours (defaults_for VOC) = learning_time_offset_hours (defaults_for NOX) \<and>
   learning_time_gain_hours (defaults_for VOC) = learning_time_gain_hours (defaults_for NOX) \<and>
   std_initial (defaults_for VOC) = std_initial (defaults_for NOX) \<and>
   gain_factor (defaults_for VOC) = gain_factor (defaults_for NOX) \<and>
   index_offset (defaults_for VOC) = 100 \<and> index_offset (defaults_for NOX) = 1 \<and>
   gating_max_duration_minutes (defaults_for VOC) = 180 \<and>
   gating_max_duration_minutes (defaults_for NOX) = 720 \<and>
   index_offset (defaults_for VOC) \<noteq> index_offset (defaults_for NOX) \<and>
   gating_max_duration_minutes (defaults_for VOC) \<noteq> gating_max_duration_minutes (defaults_for NOX)"
  by (simp add: VOC_DEFAULTS_def NOX_DEFAULTS_def)

section \<open>Properties of the hub emission\<close>

text \<open>
  Claim C2, as stated, fails: in a hub configuration that declares both a pressure
  source and an RHT acceleration block, the instruction with the RHT acceleration
  values does not come before the instruction that binds the pressure source.
\<close>

theorem rht_not_before_pressure:
  "pressure_source ex_hub = Some ''bme280_pressure'' \<and>
   rht_acceleration ex_hub = Some \<lparr>rht_k = 20, rht_p = 20, rht_t1 = 100, rht_t2 = 300\<rparr> \<and>
   \<not> precedes (rht_acceleration_instr ''sen6x_hub'' \<lparr>rht_k = 20, rht_p = 20, rht_t1 = 100, rht_t2 = 300\<rparr>)
        (pressure_source_instr ''sen6x_hub'' ''bme280_pressure'')
        (hub_to_code ex_hub)"
  by (simp add: ex_hub_def hub_to_code_def Let_def rht_acceleration_instr_def pressure_source_instr_def)

text \<open>
  Claim C2, amended: for a hub configuration that declares both, the hub emits the
  construction, the two registrations, then the binding of the pressure source, then
  the instruction with the four RHT acceleration values; the pressure binding comes
  before the RHT instruction and not after it.
\<close>

theorem pressure_before_rht:
  assumes "pressure_source config = Some pressure_sensor"
      and "rht_acceleration config = Some rht_block"
  shows "hub_to_code config =
           [New_Pvariable (hub_id config),
            Register_component (hub_id config) (update_interval config),
            Register_i2c_device (hub_id config) (address config),
            pressure_source_instr (hub_id config) pressure_sensor,
            rht_acceleration_instr (hub_id config) rht_block] \<and>
         precedes (pressure_source_instr (hub_id config) pressure_sensor)
           (rht_acceleration_instr (hub_id config) rht_block) (hub_to_code config) \<and>
         \<not> precedes (rht_acceleration_instr (hub_id config) rht_block)
           (pressure_source_instr (hub_id config) pressure_sensor) (hub_to_code config)"
  using assms
  by (simp add: hub_to_code_def Let_def rht_acceleration_instr_def pressure_source_instr_def)

theorem pressure_before_rht_witness:
  "pressure_source ex_hub = Some ''bme280_pressure'' \<and>
   rht_acceleration ex_hub = Some \<lparr>rht_k = 20, rht_p = 20, rht_t1 = 100, rht_t2 = 300\<rparr> \<and>
   precedes (pressure_source_instr ''sen6x_hub'' ''bme280_pressure'')
     (rht_acceleration_instr ''sen6x_hub'' \<lparr>rht_k = 20, rht_p = 20, rht_t1 = 100, rht_t2 = 300\<rparr>)
     (hub_to_code ex_hub)"
proof -
  have p: "pressure_source ex_hub = Some ''bme280_pressure''"
    by (simp add: ex_hub_def)
  have r: "rht_acceleration ex_hub = Some \<lparr>rht_k = 20, rht_p = 20, rht_t1 = 100, rht_t2 = 300\<rparr>"
    by (simp add: ex_hub_def)
  have i: "hub_id ex_hub = ''sen6x_hub''"
    by (simp add: ex_hub_def)
  from pressure_before_rht [OF p r] p r i show ?thesis by simp
qed

section \<open>The order of the entities of a registrar\<close>










section \<open>Validation helpers\<close>

lemma and_key_Inr:
  "and_key F r = Inr y \<Longrightarrow> \<exists>f x. F = Inr f \<and> r = Inr x \<and> y = f x"
  by (cases F; cases r) simp_all

lemma Optional_default_int_range:
  "Optional_default dflt (int_range lo hi) raw = Inr x \<Longrightarrow>
   x = (case raw of None \<Rightarrow> dflt | Some v \<Rightarrow> v)"
  by (simp add: Optional_default_def int_range_def split: if_splits)

lemma Optional_default_float_range:
  "Optional_default dflt (float_range lo hi) raw = Inr x \<Longrightarrow>
   x = (case raw of None \<Rightarrow> dflt | Some v \<Rightarrow> v)"
  by (simp add: Optional_default_def float_range_def split: if_splits)

section \<open>Algorithm tuning\<close>

lemma calls_of_append: "calls_of s (xs @ ys) = calls_of s xs @ calls_of s ys"
  by (simp add: calls_of_def)

lemma calls_of_sensor_block:
  "setter \<noteq> s \<Longrightarrow> calls_of s (sensor_block hub cfg key setter) = []"
  by (simp add: calls_of_def sensor_block_def split: option.split)

lemma calls_of_voc_index_block:
  "calls_of ''set_voc_algorithm_tuning'' (voc_index_block hub cfg) =
     (case map_of cfg CONF_VOC_INDEX of
        None \<Rightarrow> []
      | Some c \<Rightarrow>
          (case algorithm_tuning c of
             None \<Rightarrow> []
           | Some t \<Rightarrow> [Add hub ''set_voc_algorithm_tuning'' (tuning_args t)]))"
  by (simp add: calls_of_def voc_index_block_def split: option.split)

lemma calls_of_nox_index_block:
  "calls_of ''set_nox_algorithm_tuning'' (nox_index_block hub cfg) =
     (case map_of cfg CONF_NOX_INDEX of
        None \<Rightarrow> []
      | Some c \<Rightarrow>
          (case algorithm_tuning c of
             None \<Rightarrow> []
           | Some t \<Rightarrow> [Add hub ''set_nox_algorithm_tuning'' (tuning_args t)]))"
  by (simp add: calls_of_def nox_index_block_def split: option.split)

lemma calls_of_voc_in_nox_block:
  "calls_of ''set_voc_algorithm_tuning'' (nox_index_block hub cfg) = []"
  by (simp add: calls_of_def nox_index_block_def split: option.split)

lemma calls_of_nox_in_voc_block:
  "calls_of ''set_nox_algorithm_tuning'' (voc_index_block hub cfg) = []"
  by (simp add: calls_of_def voc_index_block_def split: option.split)

lemma tuning_calls:
  "calls_of (tuning_setter kind) (sensor_to_code config) =
     (case map_of (entries config) (index_key kind) of
        None \<Rightarrow> []
      | Some c \<Rightarrow>
          (case algorithm_tuning c of
             None \<Rightarrow> []
           | Some t \<Rightarrow> [Add (sen6x_id config) (tuning_setter kind) (tuning_args t)]))"
proof (cases kind)
  case VOC
  then show ?thesis
    by (simp add: sensor_to_code_def Let_def calls_of_append calls_of_sensor_block
        calls_of_voc_index_block calls_of_voc_in_nox_block cong: option.case_cong)
next
  case NOX
  then show ?thesis
    by (simp add: sensor_to_code_def Let_def calls_of_append calls_of_sensor_block
        calls_of_nox_index_block calls_of_nox_in_voc_block cong: option.case_cong)
qed

lemma ALGORITHM_TUNING_SCHEMA_values:
  assumes "ALGORITHM_TUNING_SCHEMA defaults block = Inr t"
  shows "t = make_tuning
     (case raw_index_offset block of None \<Rightarrow> index_offset defaults | Some v \<Rightarrow> v)
     (case raw_learning_time_offset_hours block of
        None \<Rightarrow> learning_time_offset_hours defaults | Some v \<Rightarrow> v)
     (case raw_learning_time_gain_hours block of
        None \<Rightarrow> learning_time_gain_hours defaults | Some v \<Rightarrow> v)
     (case raw_gating_max_duration_minutes block of
        None \<Rightarrow> gating_max_duration_minutes defaults | Some v \<Rightarrow> v)
     (case raw_std_initial block of None \<Rightarrow> std_initial defaults | Some v \<Rightarrow> v)
     (case raw_gain_factor block of None \<Rightarrow> gain_factor defaults | Some v \<Rightarrow> v)"
proof -
  from assms [unfolded ALGORITHM_TUNING_SCHEMA_def]
  obtain f6 x6 where 6: "t = f6 x6"
    and r6: "Optional_default (gain_factor defaults) (int_range 1 1000) (raw_gain_factor block) = Inr x6"
    and F6: "and_key (and_key (and_key (and_key (and_key (Inr make_tuning)
       (Optional_default (index_offset defaults) (int_range 1 250) (raw_index_offset block)))
       (Optional_default (learning_time_offset_hours defaults) (int_range 1 1000)
          (raw_learning_time_offset_hours block)))
       (Optional_default (learning_time_gain_hours defaults) (int_range 1 1000)
          (raw_learning_time_gain_hours block)))
       (Optional_default (gating_max_duration_minutes defaults) (int_range 0 3000)
          (raw_gating_max_duration_minutes block)))
       (Optional_default (std_initial defaults) (int_range 10 5000) (raw_std_initial block)) = Inr f6"
    by (blast dest: and_key_Inr)
  from F6 obtain f5 x5 where 5: "f6 = f5 x5"
    and r5: "Optional_default (std_initial defaults) (int_range 10 5000) (raw_std_initial block) = Inr x5"
    and F5: "and_key (and_key (and_key (and_key (Inr make_tuning)
       (Optional_default (index_offset defaults) (int_range 1 250) (raw_index_offset block)))
       (Optional_default (learning_time_offset_hours defaults) (int_range 1 1000)
          (raw_learning_time_offset_hours block)))
       (Optional_default (learning_time_gain_hours defaults) (int_range 1 1000)
          (raw_learning_time_gain_hours block)))
       (Optional_default (gating_max_duration_minutes defaults) (int_range 0 3000)
          (raw_gating_max_duration_minutes block)) = Inr f5"
    by (blast dest: and_key_Inr)
  from F5 obtain f4 x4 where 4: "f5 = f4 x4"
    and r4: "Optional_default (gating_max_duration_minutes defaults) (int_range 0 3000)
          (raw_gating_max_duration_minutes block) = Inr x4"
    and F4: "and_key (and_key (and_key (Inr make_tuning)
       (Optional_default (index_offset defaults) (int_range 1 250) (raw_index_offset block)))
       (Optional_default (learning_time_offset_hours defaults) (int_range 1 1000)
          (raw_learning_time_offset_hours block)))
       (Optional_default (learning_time_gain_hours defaults) (int_range 1 1000)
          (raw_learning_time_gain_hours block)) = Inr f4"
    by (blast dest: and_key_Inr)
  from F4 obtain f3 x3 where 3: "f4 = f3 x3"
    and r3: "Optional_default (learning_time_gain_hours defaults) (int_range 1 1000)
          (raw_learning_time_gain_hours block) = Inr x3"
    and F3: "and_key (and_key (Inr make_tuning)
       (Optional_default (index_offset defaults) (int_range 1 250) (raw_index_offset block)))
       (Optional_default (learning_time_offset_hours defaults) (int_range 1 1000)
          (raw_learning_time_offset_hours block)) = Inr f3"
    by (blast dest: and_key_Inr)
  from F3 obtain f2 x2 where 2: "f3 = f2 x2"
    and r2: "Optional_default (learning_time_offset_hours defaults) (int_range 1 1000)
          (raw_learning_time_offset_hours block) = Inr x2"
    and F2: "and_key (Inr make_tuning)
       (Optional_default (index_offset defaults) (int_range 1 250) (raw_index_offset block)) = Inr f2"
    by (blast dest: and_key_Inr)
  from F2 obtain x1 where 1: "f2 = make_tuning x1"
    and r1: "Optional_default (index_offset defaults) (int_range 1 250) (raw_index_offset block) = Inr x1"
    by (auto dest: and_key_Inr)
  show ?thesis
    unfolding 6 5 4 3 2 1
    using Optional_default_int_range [OF r1] Optional_default_int_range [OF r2]
      Optional_default_int_range [OF r3] Optional_default_int_range [OF r4]
      Optional_default_int_range [OF r5] Optional_default_int_range [OF r6]
    by simp
qed

text \<open>
  Claim C5: for a validated VOC or NOx index sensor, the instructions of the sensor
  platform contain no tuning call of that sensor when the user declared no
  \<open>algorithm_tuning\<close> block, and exactly one when the user declared one; its six
  arguments are the values of the block, each missing one replaced by the default of
  the sensor's kind.
\<close>

theorem tuning_forwarded:
  assumes "index_sensor_schema (defaults_for kind) raw = Inr c"
      and "map_of (entries config) (index_key kind) = Some c"
  shows "calls_of (tuning_setter kind) (sensor_to_code config) =
     (case raw_algorithm_tuning raw of
        None \<Rightarrow> []
      | Some block \<Rightarrow>
          [Add (sen6x_id config) (tuning_setter kind)
             [IntLit (case raw_index_offset block of
                        None \<Rightarrow> index_offset (defaults_for kind) | Some v \<Rightarrow> v),
              IntLit (case raw_learning_time_offset_hours block of
                        None \<Rightarrow> learning_time_offset_hours (defaults_for kind) | Some v \<Rightarrow> v),
              IntLit (case raw_learning_time_gain_hours block of
                        None \<Rightarrow> learning_time_gain_hours (defaults_for kind) | Some v \<Rightarrow> v),
              IntLit (case raw_gating_max_duration_minutes block of
                        None \<Rightarrow> gating_max_duration_minutes (defaults_for kind) | Some v \<Rightarrow> v),
              IntLit (case raw_std_initial block of
                        None \<Rightarrow> std_initial (defaults_for kind) | Some v \<Rightarrow> v),
              IntLit (case raw_gain_factor block of
                        None \<Rightarrow> gain_factor (defaults_for kind) | Some v \<Rightarrow> v)]])"
proof (cases "raw_algorithm_tuning raw")
  case None
  with assms(1) have "algorithm_tuning c = None"
    by (auto simp: index_sensor_schema_def)
  with None assms(2) show ?thesis
    by (simp add: tuning_calls)
next
  case (Some block)
  with assms(1) obtain t where t: "ALGORITHM_TUNING_SCHEMA (defaults_for kind) block = Inr t"
    and c: "algorithm_tuning c = Some t"
    by (auto simp: index_sensor_schema_def split: sum.splits)
  from ALGORITHM_TUNING_SCHEMA_values [OF t] c Some assms(2) show ?thesis
    by (simp add: tuning_calls tuning_args_def make_tuning_def)
qed

theorem tuning_forwarded_witness:
  "index_sensor_schema (defaults_for VOC) ex_raw_voc_tuned = Inr ex_voc_tuned \<and>
   map_of (entries ex_index_sensors) (index_key VOC) = Some ex_voc_tuned \<and>
   calls_of (tuning_setter VOC) (sensor_to_code ex_index_sensors) =
     [Add ''sen6x_hub'' ''set_voc_algorithm_tuning''
        [IntLit 120, IntLit 12, IntLit 12, IntLit 180, IntLit 50, IntLit 200]] \<and>
   index_sensor_schema (defaults_for NOX) ex_raw_nox_plain = Inr ex_nox_plain \<and>
   map_of (entries ex_index_sensors) (index_key NOX) = Some ex_nox_plain \<and>
   calls_of (tuning_setter NOX) (sensor_to_code ex_index_sensors) = []"
proof -
  have v: "index_sensor_schema (defaults_for VOC) ex_raw_voc_tuned = Inr ex_voc_tuned"
    by (simp add: index_sensor_schema_def ex_raw_voc_tuned_def ex_voc_tuned_def
        ALGORITHM_TUNING_SCHEMA_def Optional_default_def int_range_def make_tuning_def
        VOC_DEFAULTS_def)
  have dv: "map_of (entries ex_index_sensors) (index_key VOC) = Some ex_voc_tuned"
    by (simp add: ex_index_sensors_def)
  have n: "index_sensor_schema (defaults_for NOX) ex_raw_nox_plain = Inr ex_nox_plain"
    by (simp add: index_sensor_schema_def ex_raw_nox_plain_def ex_nox_plain_def)
  have dn: "map_of (entries ex_index_sensors) (index_key NOX) = Some ex_nox_plain"
    by (simp add: ex_index_sensors_def)
  have i: "sen6x_id ex_index_sensors = ''sen6x_hub''"
    by (simp add: ex_index_sensors_def)
  have cv: "calls_of (tuning_setter VOC) (sensor_to_code ex_index_sensors) =
     [Add ''sen6x_hub'' ''set_voc_algorithm_tuning''
        [IntLit 120, IntLit 12, IntLit 12, IntLit 180, IntLit 50, IntLit 200]]"
    using tuning_forwarded [OF v dv] i
    by (simp add: ex_raw_voc_tuned_def VOC_DEFAULTS_def)
  have cn: "calls_of (tuning_setter NOX) (sensor_to_code ex_index_sensors) = []"
    using tuning_forwarded [OF n dn]
    by (simp add: ex_raw_nox_plain_def)
  from v dv cv n dn cn show ?thesis by blast
qed

section \<open>Temperature compensation\<close>

lemma calls_of_number_block:
  "setter \<noteq> s \<Longrightarrow> calls_of s (number_block hub cfg key lo hi st setter) = []"
  by (simp add: calls_of_def number_block_def split: option.split)

lemma calls_of_temperature_offset_block:
  "calls_of ''set_temperature_compensation'' (temperature_offset_block hub cfg) =
     (case map_of cfg CONF_TEMPERATURE_OFFSET of
        None \<Rightarrow> []
      | Some c \<Rightarrow>
          (let slope = (case normalized_offset_slope c of None \<Rightarrow> 0 | Some v \<Rightarrow> v);
               time_const = (case time_constant c of None \<Rightarrow> 0 | Some v \<Rightarrow> v)
           in if slope \<noteq> 0 \<or> time_const \<noteq> 0
              then [Add hub ''set_temperature_compensation''
                      [FloatLit 0, FloatLit slope, IntLit time_const]]
              else []))"
  by (simp add: calls_of_def temperature_offset_block_def Let_def split: option.split)

lemma compensation_calls:
  "calls_of ''set_temperature_compensation'' (number_to_code config) =
     (case map_of (entries config) CONF_TEMPERATURE_OFFSET of
        None \<Rightarrow> []
      | Some c \<Rightarrow>
          (let slope = (case normalized_offset_slope c of None \<Rightarrow> 0 | Some v \<Rightarrow> v);
               time_const = (case time_constant c of None \<Rightarrow> 0 | Some v \<Rightarrow> v)
           in if slope \<noteq> 0 \<or> time_const \<noteq> 0
              then [Add (sen6x_id config) ''set_temperature_compensation''
                      [FloatLit 0, FloatLit slope, IntLit time_const]]
              else []))"
  by (simp add: number_to_code_def Let_def calls_of_append calls_of_number_block
      calls_of_temperature_offset_block)

lemma temperature_offset_schema_values:
  assumes "temperature_offset_schema raw = Inr c"
  shows "normalized_offset_slope c =
           Some (case raw_normalized_offset_slope raw of None \<Rightarrow> 0 | Some v \<Rightarrow> v) \<and>
         time_constant c = Some (case raw_time_constant raw of None \<Rightarrow> 0 | Some v \<Rightarrow> v)"
proof -
  from assms [unfolded temperature_offset_schema_def]
  obtain f2 x2 where 2: "c = f2 x2"
    and r2: "Optional_default 0 (int_range 0 65535) (raw_time_constant raw) = Inr x2"
    and F2: "and_key (Inr (make_temperature_offset raw))
       (Optional_default 0 (float_range (- 1) 1) (raw_normalized_offset_slope raw)) = Inr f2"
    by (blast dest: and_key_Inr)
  from F2 obtain x1 where 1: "f2 = make_temperature_offset raw x1"
    and r1: "Optional_default 0 (float_range (- 1) 1) (raw_normalized_offset_slope raw) = Inr x1"
    by (auto dest: and_key_Inr)
  show ?thesis
    unfolding 2 1
    using Optional_default_float_range [OF r1] Optional_default_int_range [OF r2]
    by (simp add: make_temperature_offset_def)
qed

text \<open>
  Claim C6: for a validated temperature offset, no compensation instruction is
  emitted when the validated slope and time constant are both zero; otherwise exactly
  one is emitted, with the arguments \<open>(0.0, slope, time_constant)\<close>. The witness has the
  slope \<open>0.05\<close> and the time constant \<open>0\<close>.
\<close>

theorem temperature_compensation:
  assumes "temperature_offset_schema raw = Inr c"
      and "map_of (entries config) CONF_TEMPERATURE_OFFSET = Some c"
  shows "let slope = (case raw_normalized_offset_slope raw of None \<Rightarrow> 0 | Some v \<Rightarrow> v);
             time_const = (case raw_time_constant raw of None \<Rightarrow> 0 | Some v \<Rightarrow> v)
         in normalized_offset_slope c = Some slope \<and> time_constant c = Some time_const \<and>
            calls_of ''set_temperature_compensation'' (number_to_code config) =
              (if slope = 0 \<and> time_const = 0 then []
               else [Add (sen6x_id config) ''set_temperature_compensation''
                       [FloatLit 0, FloatLit slope, IntLit time_const]])"
  using temperature_offset_schema_values [OF assms(1)] assms(2)
  by (simp add: compensation_calls Let_def)

theorem temperature_compensation_witness:
  "temperature_offset_schema ex_raw_offset_sloped = Inr ex_offset_sloped \<and>
   map_of (entries ex_numbers_sloped) CONF_TEMPERATURE_OFFSET = Some ex_offset_sloped \<and>
   calls_of ''set_temperature_compensation'' (number_to_code ex_numbers_sloped) =
     [Add ''sen6x_hub'' ''set_temperature_compensation'' [FloatLit 0, FloatLit 0.05, IntLit 0]] \<and>
   temperature_offset_schema ex_raw_offset_plain = Inr ex_offset_plain \<and>
   map_of (entries ex_numbers_plain) CONF_TEMPERATURE_OFFSET = Some ex_offset_plain \<and>
   calls_of ''set_temperature_compensation'' (number_to_code ex_numbers_plain) = []"
proof -
  have s: "temperature_offset_schema ex_raw_offset_sloped = Inr ex_offset_sloped"
    by (simp add: temperature_offset_schema_def ex_raw_offset_sloped_def ex_offset_sloped_def
        Optional_default_def float_range_def int_range_def make_temperature_offset_def)
  have ds: "map_of (entries ex_numbers_sloped) CONF_TEMPERATURE_OFFSET = Some ex_offset_sloped"
    by (simp add: ex_numbers_sloped_def)
  have p: "temperature_offset_schema ex_raw_offset_plain = Inr ex_offset_plain"
    by (simp add: temperature_offset_schema_def ex_raw_offset_plain_def ex_offset_plain_def
        Optional_default_def float_range_def int_range_def make_temperature_offset_def)
  have dp: "map_of (entries ex_numbers_plain) CONF_TEMPERATURE_OFFSET = Some ex_offset_plain"
    by (simp add: ex_numbers_plain_def)
  have cs: "calls_of ''set_temperature_compensation'' (number_to_code ex_numbers_sloped) =
     [Add ''sen6x_hub'' ''set_temperature_compensation'' [FloatLit 0, FloatLit 0.05, IntLit 0]]"
    using temperature_compensation [OF s ds]
    by (simp add: Let_def ex_raw_offset_sloped_def ex_numbers_sloped_def)
  have cp: "calls_of ''set_temperature_compensation'' (number_to_code ex_numbers_plain) = []"
    using temperature_compensation [OF p dp]
    by (simp add: Let_def ex_raw_offset_plain_def)
  from s ds cs p dp cp show ?thesis by blast
qed

section \<open>Adjustable ranges of the numbers\<close>

lemma new_numbers_number_block:
  "filter is_new_number (number_block hub cfg key lo hi st setter) =
     (case map_of cfg key of None \<Rightarrow> [] | Some c \<Rightarrow> [New_number c lo hi st])"
  by (simp add: number_block_def split: option.split)

lemma new_numbers_temperature_offset_block:
  "filter is_new_number (temperature_offset_block hub cfg) =
     (case map_of cfg CONF_TEMPERATURE_OFFSET of
        None \<Rightarrow> [] | Some c \<Rightarrow> [New_number c (- 10) 10 (1 / 10)])"
  by (simp add: temperature_offset_block_def Let_def split: option.split)

text \<open>
  Claim C8: the number entities are constructed with the ranges
  altitude compensation \<open>[0, 3000]\<close> step 1, ambient pressure compensation \<open>[0, 1100]\<close>
  step 1, temperature offset \<open>[-10, 10]\<close> step 0.1 and outdoor CO2 reference
  \<open>[350, 500]\<close> step 1, for every configuration and each of the four that it declares.
\<close>

theorem number_ranges:
  "filter is_new_number (number_to_code config) =
     (case map_of (entries config) CONF_ALTITUDE_COMPENSATION of
        None \<Rightarrow> [] | Some c \<Rightarrow> [New_number c 0 3000 1])
     @ (case map_of (entries config) CONF_AMBIENT_PRESSURE_COMPENSATION of
          None \<Rightarrow> [] | Some c \<Rightarrow> [New_number c 0 1100 1])
     @ (case map_of (entries config) CONF_TEMPERATURE_OFFSET of
          None \<Rightarrow> [] | Some c \<Rightarrow> [New_number c (- 10) 10 0.1])
     @ (case map_of (entries config) CONF_OUTDOOR_CO2_REFERENCE of
          None \<Rightarrow> [] | Some c \<Rightarrow> [New_number c 350 500 1])"
  by (simp add: number_to_code_def Let_def new_numbers_number_block
      new_numbers_temperature_offset_block)

theorem number_ranges_witness:
  "filter is_new_number (number_to_code ex_numbers_all) =
     [New_number (ex_plain_number ''altitude'') 0 3000 1,
      New_number (ex_plain_number ''pressure'') 0 1100 1,
      New_number ex_offset_sloped (- 10) 10 0.1,
      New_number (ex_plain_number ''co2_reference'') 350 500 1]"
  using number_ranges [of ex_numbers_all]
  by (simp add: ex_numbers_all_def)

section \<open>Auto-cleaning interval\<close>

lemma calls_of_co2_asc_block:
  "calls_of ''set_auto_cleaning_interval'' (co2_asc_block hub cfg) = []"
  by (simp add: calls_of_def co2_asc_block_def split: option.split)

lemma interval_calls:
  assumes "map_of (entries config) CONF_AUTO_FAN_CLEANING = Some c"
      and "interval c = Some period"
  shows "\<exists>is. switch_to_code config = Inr is \<and>
           calls_of ''set_auto_cleaning_interval'' is =
             [Add (sen6x_id config) ''set_auto_cleaning_interval''
                [IntLit (total_seconds period * 1000)]]"
  using assms
  by (simp add: switch_to_code_def Let_def auto_fan_cleaning_block_def calls_of_append
      calls_of_co2_asc_block)
    (simp add: calls_of_def)

lemma positive_time_period_seconds_7d:
  "positive_time_period_seconds ''7d'' = Inr (TimePeriodSeconds 604800)"
  by (simp add: positive_time_period_seconds_def is_digit_def decimal_def digit_value_def
      UNIT_SECONDS_def)

lemma positive_time_period_seconds_1h:
  "positive_time_period_seconds ''1h'' = Inr (TimePeriodSeconds 3600)"
  by (simp add: positive_time_period_seconds_def is_digit_def decimal_def digit_value_def
      UNIT_SECONDS_def)

lemma auto_fan_cleaning_schema_interval:
  assumes "auto_fan_cleaning_schema raw = Inr c"
  shows "\<exists>period. interval c = Some period \<and>
           positive_time_period_seconds (case raw_interval raw of None \<Rightarrow> ''7d'' | Some v \<Rightarrow> v)
             = Inr period"
proof -
  from assms [unfolded auto_fan_cleaning_schema_def]
  obtain period where "c = make_auto_fan_cleaning raw period"
    and "Optional_default ''7d'' positive_time_period_seconds (raw_interval raw) = Inr period"
    by (auto dest: and_key_Inr)
  then show ?thesis
    by (simp add: make_auto_fan_cleaning_def Optional_default_def)
qed

text \<open>
  Claim C7: for a validated auto-cleaning switch, the interval instruction carries the
  seconds of the validated interval times 1000; an omitted interval validates to seven
  days, 604800 seconds, and is emitted as 604800000, as is \<open>"7d"\<close>; \<open>"1h"\<close> is emitted as
  3600000.
\<close>

theorem auto_cleaning_interval:
  assumes "auto_fan_cleaning_schema raw = Inr c"
      and "map_of (entries config) CONF_AUTO_FAN_CLEANING = Some c"
  shows "\<exists>period is.
           interval c = Some period \<and>
           switch_to_code config = Inr is \<and>
           calls_of ''set_auto_cleaning_interval'' is =
             [Add (sen6x_id config) ''set_auto_cleaning_interval''
                [IntLit (total_seconds period * 1000)]] \<and>
           (raw_interval raw = None \<longrightarrow>
              total_seconds period = DEFAULT_CLEANING_INTERVAL \<and>
              total_seconds period * 1000 = 604800000) \<and>
           (raw_interval raw = Some ''7d'' \<longrightarrow> total_seconds period * 1000 = 604800000) \<and>
           (raw_interval raw = Some ''1h'' \<longrightarrow> total_seconds period * 1000 = 3600000)"
proof -
  from auto_fan_cleaning_schema_interval [OF assms(1)]
  obtain period where i: "interval c = Some period"
    and p: "positive_time_period_seconds
              (case raw_interval raw of None \<Rightarrow> ''7d'' | Some v \<Rightarrow> v) = Inr period"
    by blast
  from interval_calls [OF assms(2) i]
  obtain "is" where e: "switch_to_code config = Inr is"
    and c: "calls_of ''set_auto_cleaning_interval'' is =
             [Add (sen6x_id config) ''set_auto_cleaning_interval''
                [IntLit (total_seconds period * 1000)]]"
    by blast
  have d: "raw_interval raw = None \<longrightarrow>
              total_seconds period = DEFAULT_CLEANING_INTERVAL \<and>
              total_seconds period * 1000 = 604800000"
    using p by (auto simp: positive_time_period_seconds_7d DEFAULT_CLEANING_INTERVAL_def)
  have w: "raw_interval raw = Some ''7d'' \<longrightarrow> total_seconds period * 1000 = 604800000"
    using p by (auto simp: positive_time_period_seconds_7d)
  have h: "raw_interval raw = Some ''1h'' \<longrightarrow> total_seconds period * 1000 = 3600000"
    using p by (auto simp: positive_time_period_seconds_1h)
  show ?thesis
    by (rule exI [of _ period], rule exI [of _ "is"]) (intro conjI i e c d w h)
qed

theorem auto_cleaning_interval_witness:
  "auto_fan_cleaning_schema (ex_raw_cleaning None) = Inr (ex_cleaning 604800) \<and>
   map_of (entries (ex_switches 604800)) CONF_AUTO_FAN_CLEANING = Some (ex_cleaning 604800) \<and>
   (\<exists>is. switch_to_code (ex_switches 604800) = Inr is \<and>
      calls_of ''set_auto_cleaning_interval'' is =
        [Add ''sen6x_hub'' ''set_auto_cleaning_interval'' [IntLit 604800000]]) \<and>
   auto_fan_cleaning_schema (ex_raw_cleaning (Some ''7d'')) = Inr (ex_cleaning 604800) \<and>
   auto_fan_cleaning_schema (ex_raw_cleaning (Some ''1h'')) = Inr (ex_cleaning 3600) \<and>
   map_of (entries (ex_switches 3600)) CONF_AUTO_FAN_CLEANING = Some (ex_cleaning 3600) \<and>
   (\<exists>is. switch_to_code (ex_switches 3600) = Inr is \<and>
      calls_of ''set_auto_cleaning_interval'' is =
        [Add ''sen6x_hub'' ''set_auto_cleaning_interval'' [IntLit 3600000]])"
proof -
  have n: "auto_fan_cleaning_schema (ex_raw_cleaning None) = Inr (ex_cleaning 604800)"
    by (simp add: auto_fan_cleaning_schema_def ex_raw_cleaning_def ex_cleaning_def
        Optional_default_def positive_time_period_seconds_7d make_auto_fan_cleaning_def)
  have w: "auto_fan_cleaning_schema (ex_raw_cleaning (Some ''7d'')) = Inr (ex_cleaning 604800)"
    by (simp add: auto_fan_cleaning_schema_def ex_raw_cleaning_def ex_cleaning_def
        Optional_default_def positive_time_period_seconds_7d make_auto_fan_cleaning_def)
  have h: "auto_fan_cleaning_schema (ex_raw_cleaning (Some ''1h'')) = Inr (ex_cleaning 3600)"
    by (simp add: auto_fan_cleaning_schema_def ex_raw_cleaning_def ex_cleaning_def
        Optional_default_def positive_time_period_seconds_1h make_auto_fan_cleaning_def)
  have dw: "map_of (entries (ex_switches 604800)) CONF_AUTO_FAN_CLEANING = Some (ex_cleaning 604800)"
    by (simp add: ex_switches_def)
  have dh: "map_of (entries (ex_switches 3600)) CONF_AUTO_FAN_CLEANING = Some (ex_cleaning 3600)"
    by (simp add: ex_switches_def)
  have i: "sen6x_id (ex_switches 604800) = ''sen6x_hub''" "sen6x_id (ex_switches 3600) = ''sen6x_hub''"
    by (simp_all add: ex_switches_def)
  have rn: "raw_interval (ex_raw_cleaning None) = None"
    and rh: "raw_interval (ex_raw_cleaning (Some ''1h'')) = Some ''1h''"
    by (simp_all add: ex_raw_cleaning_def)
  from auto_cleaning_interval [OF n dw] rn i(1)
  have cw: "\<exists>is. switch_to_code (ex_switches 604800) = Inr is \<and>
      calls_of ''set_auto_cleaning_interval'' is =
        [Add ''sen6x_hub'' ''set_auto_cleaning_interval'' [IntLit 604800000]]"
    by auto
  from auto_cleaning_interval [OF h dh] rh i(2)
  have ch: "\<exists>is. switch_to_code (ex_switches 3600) = Inr is \<and>
      calls_of ''set_auto_cleaning_interval'' is =
        [Add ''sen6x_hub'' ''set_auto_cleaning_interval'' [IntLit 3600000]]"
    by auto
  from n dw cw w h dh ch show ?thesis by (intro conjI)
qed

end
